theory Spec2Isabelle
  imports Complex_Main "HOL-Library.Char_ord" "HOL-Library.List_Lexorder"
begin

section \<open>Values of the Python program\<close>

subsection \<open>Floats\<close>

text \<open>
  Quantities and prices are Python floats. A float is modelled as a real number or as
  NaN: the comparisons of the source (\<open><=\<close>, \<open><\<close>, \<open>>\<close>) are false as soon as one side
  is NaN, and an addition with NaN is NaN. Rounding and the infinities are not modelled:
  \<open>F r\<close> stands for the float whose value is \<open>r\<close>.
\<close>

datatype pyfloat = F real | NaN

fun fle :: "pyfloat \<Rightarrow> pyfloat \<Rightarrow> bool" where
  "fle (F a) (F b) = (a \<le> b)"
| "fle _ _ = False"

fun flt :: "pyfloat \<Rightarrow> pyfloat \<Rightarrow> bool" where
  "flt (F a) (F b) = (a < b)"
| "flt _ _ = False"

fun fadd :: "pyfloat \<Rightarrow> pyfloat \<Rightarrow> pyfloat" where
  "fadd (F a) (F b) = F (a + b)"
| "fadd _ _ = NaN"

fun fneg :: "pyfloat \<Rightarrow> pyfloat" where
  "fneg (F a) = F (- a)"
| "fneg NaN = NaN"

text \<open>Python's \<open>max(a, b)\<close> keeps \<open>a\<close> unless \<open>b > a\<close>.\<close>

definition py_max :: "pyfloat \<Rightarrow> pyfloat \<Rightarrow> pyfloat" where
  "py_max a b = (if flt a b then b else a)"

text \<open>Python's \<open>a or b\<close> on floats: \<open>a\<close> is falsy exactly when it equals \<open>0.0\<close>.\<close>

definition py_or :: "pyfloat \<Rightarrow> pyfloat \<Rightarrow> pyfloat" where
  "py_or a b = (if a = F 0 then b else a)"

subsection \<open>Strings\<close>

text \<open>
  \<open>str.upper\<close> and \<open>str.strip\<close>, on ASCII: the letters \<open>a\<close> to \<open>z\<close> are mapped to
  \<open>A\<close> to \<open>Z\<close>, and the white space that \<open>strip\<close> removes is the ASCII white space of
  Python (codes 9 to 13, 28 to 31 and 32).
\<close>

definition upper_char :: "char \<Rightarrow> char" where
  "upper_char c =
     (case map_of (zip ''abcdefghijklmnopqrstuvwxyz'' ''ABCDEFGHIJKLMNOPQRSTUVWXYZ'') c of
        Some u \<Rightarrow> u
      | None \<Rightarrow> c)"

definition upper :: "string \<Rightarrow> string" where
  "upper s = map upper_char s"

definition lower_char :: "char \<Rightarrow> char" where
  "lower_char c =
     (case map_of (zip ''ABCDEFGHIJKLMNOPQRSTUVWXYZ'' ''abcdefghijklmnopqrstuvwxyz'') c of
        Some l \<Rightarrow> l
      | None \<Rightarrow> c)"

definition lower :: "string \<Rightarrow> string" where
  "lower s = map lower_char s"

definition is_space :: "char \<Rightarrow> bool" where
  "is_space c = (c \<in> set [CHR 0x09, CHR 0x0A, CHR 0x0B, CHR 0x0C, CHR 0x0D,
                           CHR 0x1C, CHR 0x1D, CHR 0x1E, CHR 0x1F, CHR '' ''])"

definition strip :: "string \<Rightarrow> string" where
  "strip s = rev (dropWhile is_space (rev (dropWhile is_space s)))"

subsection \<open>Errors\<close>

text \<open>
  Every exception the modelled code raises is a value of \<open>error\<close>:
  \<^item> \<open>InvalidQuantity\<close> is \<open>ValueError("Quantity must be positive.")\<close>;
  \<^item> \<open>InsufficientShares\<close> is \<open>ValueError("Not enough shares to sell.")\<close>;
  \<^item> \<open>AssertionError\<close> is the failure of \<open>assert pos is not None\<close> in \<open>buy_stock\<close>;
  \<^item> \<open>SchemaError missing found\<close> is the \<open>ValueError\<close> of \<open>_load_excel_to_df\<close> when a
    required column is absent, with the missing and the found column names of its message
    (the source lists the missing names in the iteration order of a Python set, which is
    not fixed; the model lists them in the order ticker, qty, exec\_price, current\_price);
  \<^item> \<open>SchemaErrorMinimal\<close> is \<open>ValueError("Excel must include columns: ticker, qty")\<close>
    of \<open>df_from_excel_bytes\<close>;
  \<^item> \<open>PandasError\<close> is the \<open>TypeError\<close> or \<open>AttributeError\<close> pandas raises when a
    column label that the reader works on occurs twice in the frame;
  \<^item> \<open>KeyError c\<close> is a read of a column that the frame does not have;
  \<^item> \<open>FloatValueError\<close> is the \<open>ValueError\<close> of \<open>float(s)\<close> on a string that is not
    a number;
  \<^item> \<open>ReadError\<close> is any exception of saving the upload or of \<open>pd.read_excel\<close>;
  \<^item> \<open>UrlValueError\<close> is the \<open>ValueError\<close> of \<open>urlparse\<close> on a malformed address.
\<close>

datatype error =
    InvalidQuantity
  | InsufficientShares
  | AssertionError
  | SchemaError "string list" "string list"
  | SchemaErrorMinimal
  | PandasError
  | KeyError string
  | FloatValueError
  | ReadError
  | UrlValueError

section \<open>The ledger (api/portfolio\_actions.py)\<close>

subsection \<open>Positions and the store\<close>

record position =
  ticker :: string
  qty :: pyfloat
  exec_price :: "pyfloat option"
  current_price :: "pyfloat option"

text \<open>
  Modelled from the spec: the Ledger Store (the \<open>Position\<close> table of \<open>data/models.py\<close>
  and the session of \<open>data/db.py\<close>, which are not among the sources). The spec has one
  row per ticker, the ticker being the unique key, and the last write winning when a
  ticker is added twice. The table is the list of its rows in insertion order;
  \<open>db_add\<close>, \<open>db_delete\<close> and \<open>db_update\<close> are \<open>db.add\<close>, \<open>db.delete\<close> and the
  assignment to the attributes of a loaded row, each followed by its \<open>db.commit()\<close>.
\<close>

type_synonym session = "position list"

definition db_delete :: "position \<Rightarrow> session \<Rightarrow> session" where
  "db_delete p db = filter (\<lambda>r. ticker r \<noteq> ticker p) db"

definition db_add :: "position \<Rightarrow> session \<Rightarrow> session" where
  "db_add p db = filter (\<lambda>r. ticker r \<noteq> ticker p) db @ [p]"

definition db_update :: "position \<Rightarrow> session \<Rightarrow> session" where
  "db_update p db = map (\<lambda>r. if ticker r = ticker p then p else r) db"

subsection \<open>Query helpers\<close>

definition list_positions :: "session \<Rightarrow> position list" where
  "list_positions db = sort_key ticker db"

definition get_position :: "session \<Rightarrow> string \<Rightarrow> position option" where
  "get_position db tk = find (\<lambda>p. ticker p = upper tk) db"

subsection \<open>Mutations\<close>

text \<open>
  \<open>insert_position\<close> returns the session after its \<open>db.commit()\<close> and the position it
  returns (\<open>None\<close> when it has deleted the row).
\<close>

definition insert_position ::
  "session \<Rightarrow> string \<Rightarrow> pyfloat \<Rightarrow> pyfloat option \<Rightarrow> pyfloat option
     \<Rightarrow> session \<times> position option" where
  "insert_position db tk qty_delta ep cp =
     (let t = upper tk in
      case get_position db t of
        None \<Rightarrow>
          (let pos = \<lparr>ticker = t,
                      qty = py_max qty_delta (F 0),
                      exec_price = (case ep of Some e \<Rightarrow> Some e | None \<Rightarrow> cp),
                      current_price = (case cp of Some c \<Rightarrow> Some c | None \<Rightarrow> ep)\<rparr>
           in (db_add pos db, Some pos))
      | Some pos0 \<Rightarrow>
          (let pos1 = pos0\<lparr>qty := fadd (py_or (qty pos0) (F 0)) qty_delta\<rparr>;
               pos2 = (case ep of Some e \<Rightarrow> pos1\<lparr>exec_price := Some e\<rparr> | None \<Rightarrow> pos1);
               pos3 = (case cp of Some c \<Rightarrow> pos2\<lparr>current_price := Some c\<rparr> | None \<Rightarrow> pos2)
           in if fle (qty pos3) (F 0)
              then (db_delete pos3 db, None)
              else (db_update pos3 db, Some pos3)))"

text \<open>
  \<open>buy_stock\<close> and \<open>sell_stock\<close> return the session they leave behind together with
  their result, so that an exception raised after a commit keeps what was committed.
\<close>

definition buy_stock ::
  "session \<Rightarrow> string \<Rightarrow> pyfloat \<Rightarrow> pyfloat option \<Rightarrow> pyfloat option
     \<Rightarrow> session \<times> (error + position)" where
  "buy_stock db tk q ep cp =
     (if fle q (F 0) then (db, Inl InvalidQuantity)
      else case insert_position db tk q ep cp of
             (db', None) \<Rightarrow> (db', Inl AssertionError)
           | (db', Some pos) \<Rightarrow> (db', Inr pos))"

definition sell_stock ::
  "session \<Rightarrow> string \<Rightarrow> pyfloat \<Rightarrow> session \<times> (error + position option)" where
  "sell_stock db tk q =
     (if fle q (F 0) then (db, Inl InvalidQuantity)
      else case get_position db tk of
             None \<Rightarrow> (db, Inl InsufficientShares)
           | Some pos \<Rightarrow>
               if flt (py_or (qty pos) (F 0)) q then (db, Inl InsufficientShares)
               else (case insert_position db tk (fneg q) None None of
                       (db', r) \<Rightarrow> (db', Inr r)))"

subsection \<open>The tool adapter (agent/tools/tools.py)\<close>

datatype pyval = PStr string | PFloat pyfloat | PNone

text \<open>A Python dictionary with string keys, as the list of its items; \<open>[]\<close> is \<open>{}\<close>.\<close>

type_synonym pydict = "(string \<times> pyval) list"

definition position_to_dict :: "position option \<Rightarrow> pydict" where
  "position_to_dict p =
     (case p of
        None \<Rightarrow> []
      | Some r \<Rightarrow>
          [(''ticker'', PStr (ticker r)),
           (''qty'', PFloat (qty r)),
           (''exec_price'', (case exec_price r of None \<Rightarrow> PNone | Some e \<Rightarrow> PFloat e)),
           (''current_price'', (case current_price r of None \<Rightarrow> PNone | Some c \<Rightarrow> PFloat c))])"

definition show_portfolio_tool :: "session \<Rightarrow> pydict list" where
  "show_portfolio_tool db = map (\<lambda>p. position_to_dict (Some p)) (list_positions db)"

definition buy_stock_tool ::
  "session \<Rightarrow> string \<Rightarrow> pyfloat \<Rightarrow> pyfloat option \<Rightarrow> pyfloat option
     \<Rightarrow> session \<times> (error + pydict)" where
  "buy_stock_tool db tk q ep cp =
     (case buy_stock db tk q ep cp of
        (db', Inl e) \<Rightarrow> (db', Inl e)
      | (db', Inr pos) \<Rightarrow> (db', Inr (position_to_dict (Some pos))))"

definition sell_stock_tool :: "session \<Rightarrow> string \<Rightarrow> pyfloat \<Rightarrow> session \<times> (error + pydict)" where
  "sell_stock_tool db tk q =
     (case sell_stock db tk q of
        (db', Inl e) \<Rightarrow> (db', Inl e)
      | (db', Inr None) \<Rightarrow> (db', Inr [])
      | (db', Inr (Some pos)) \<Rightarrow> (db', Inr (position_to_dict (Some pos))))"

section \<open>Spreadsheets\<close>

subsection \<open>Data frames\<close>

text \<open>
  A cell of a sheet read by \<open>pd.read_excel\<close> is a number (an empty cell is NaN) or a
  text. A frame is its column labels and its rows, each row having one cell per label;
  a label may occur twice after a renaming.
\<close>

datatype cell = Flt pyfloat | Str string

record dataframe =
  columns :: "string list"
  rows :: "cell list list"


text \<open>
  The functions of Python and pandas that work on the characters of a number are
  parameters of the model:
  \<^item> \<open>str_of_float x\<close> is \<open>str(x)\<close>;
  \<^item> \<open>to_numeric_str s\<close> is what \<open>pd.to_numeric(errors="coerce")\<close> makes of the text
    \<open>s\<close>: its number, NaN when it is not one;
  \<^item> \<open>float_of_str s\<close> is \<open>float(s)\<close>, \<open>None\<close> when it raises \<open>ValueError\<close>;
  \<^item> \<open>float_mul\<close>, \<open>float_sub\<close> and \<open>float_div\<close> are the float product, difference
    and quotient (a division by zero gives an infinity or NaN in pandas, not an error).
\<close>

record pylib =
  str_of_float :: "pyfloat \<Rightarrow> string"
  to_numeric_str :: "string \<Rightarrow> pyfloat"
  float_of_str :: "string \<Rightarrow> pyfloat option"
  float_mul :: "pyfloat \<Rightarrow> pyfloat \<Rightarrow> pyfloat"
  float_sub :: "pyfloat \<Rightarrow> pyfloat \<Rightarrow> pyfloat"
  float_div :: "pyfloat \<Rightarrow> pyfloat \<Rightarrow> pyfloat"

text \<open>\<open>astype(str)\<close> and \<open>str(x)\<close> on a cell.\<close>

definition astype_str :: "pylib \<Rightarrow> cell \<Rightarrow> string" where
  "astype_str lib v = (case v of Flt x \<Rightarrow> str_of_float lib x | Str s \<Rightarrow> s)"

text \<open>\<open>pd.to_numeric(errors="coerce")\<close> on a cell.\<close>

definition to_numeric :: "pylib \<Rightarrow> cell \<Rightarrow> pyfloat" where
  "to_numeric lib v = (case v of Flt x \<Rightarrow> x | Str s \<Rightarrow> to_numeric_str lib s)"

definition fillna :: "pyfloat \<Rightarrow> pyfloat \<Rightarrow> pyfloat" where
  "fillna d x = (if x = NaN then d else x)"

definition notna :: "cell \<Rightarrow> bool" where
  "notna v = (v \<noteq> Flt NaN)"

text \<open>\<open>float(x)\<close> on a cell.\<close>

definition py_float :: "pylib \<Rightarrow> cell \<Rightarrow> error + pyfloat" where
  "py_float lib v =
     (case v of
        Flt x \<Rightarrow> Inr x
      | Str s \<Rightarrow> (case float_of_str lib s of None \<Rightarrow> Inl FloatValueError | Some x \<Rightarrow> Inr x))"

text \<open>The cell of a row under a label (the first one, when the label occurs twice).\<close>

definition cell_at :: "string list \<Rightarrow> cell list \<Rightarrow> string \<Rightarrow> cell option" where
  "cell_at cols r c = map_of (zip cols r) c"

text \<open>\<open>df[c] = f(df[c])\<close>, on one row.\<close>

definition upd_col :: "string \<Rightarrow> (cell \<Rightarrow> cell) \<Rightarrow> string list \<Rightarrow> cell list \<Rightarrow> cell list" where
  "upd_col c f cols r = map (\<lambda>(k, v). if k = c then f v else v) (zip cols r)"

text \<open>\<open>df.rename(columns=m)\<close>: a label that is a key of \<open>m\<close> is replaced.\<close>

definition rename_columns :: "(string \<rightharpoonup> string) \<Rightarrow> string list \<Rightarrow> string list" where
  "rename_columns m cols = map (\<lambda>c. case m c of Some v \<Rightarrow> v | None \<Rightarrow> c) cols"

text \<open>
  \<open>df[c] = s\<close> for a computed series \<open>s\<close> (here a function of the row): the column is
  replaced when the label exists and appended when it does not.
\<close>

definition assign_col :: "string \<Rightarrow> (cell list \<Rightarrow> cell) \<Rightarrow> dataframe \<Rightarrow> dataframe" where
  "assign_col c f df =
     (if c \<in> set (columns df)
      then df\<lparr>rows := map (\<lambda>r. upd_col c (\<lambda>_. f r) (columns df) r) (rows df)\<rparr>
      else df\<lparr>columns := columns df @ [c], rows := map (\<lambda>r. r @ [f r]) (rows df)\<rparr>)"

subsection \<open>The reader of the ledger import (api/portfolio\_actions.py)\<close>

definition RENAME :: "(string \<times> string) list" where
  "RENAME = [(''Ticker (RIC)'', ''ticker''), (''Company Name'', ''company''), (''quantity'', ''qty'')]"

text \<open>The renaming of \<open>df_from_excel_bytes\<close>: a key of \<open>RENAME\<close> is matched as it is written.\<close>

definition rename_minimal :: "string list \<Rightarrow> string list" where
  "rename_minimal cols = rename_columns (map_of (filter (\<lambda>(k, v). k \<in> set cols) RENAME)) cols"

text \<open>
  \<open>df_from_excel_bytes\<close>, from the frame that \<open>pd.read_excel\<close> returns. When the label
  \<open>ticker\<close> or \<open>qty\<close> occurs twice, \<open>df["ticker"]\<close> or \<open>df["qty"]\<close> is a frame and not a
  column: \<open>.str\<close> and \<open>pd.to_numeric\<close> raise on it.
\<close>

definition df_from_excel_bytes :: "pylib \<Rightarrow> dataframe \<Rightarrow> error + dataframe" where
  "df_from_excel_bytes lib df =
     (let cols1 = rename_minimal (columns df) in
      if \<not> ({''ticker'', ''qty''} \<subseteq> set (map lower cols1)) then Inl SchemaErrorMinimal
      else
        let cols2 = map lower cols1 in
        if count_list cols2 ''ticker'' \<noteq> 1 \<or> count_list cols2 ''qty'' \<noteq> 1 then Inl PandasError
        else Inr \<lparr>columns = cols2,
                  rows = map (\<lambda>r. upd_col ''qty'' (\<lambda>v. Flt (fillna (F 0) (to_numeric lib v))) cols2
                                    (upd_col ''ticker'' (\<lambda>v. Str (upper (astype_str lib v))) cols2 r))
                             (rows df)\<rparr>)"

text \<open>
  One row of the loop of \<open>load_df_into_db\<close>. \<open>row[c]\<close> raises \<open>KeyError\<close> when the frame
  has no column \<open>c\<close>. When a label occurs twice, \<open>row[c]\<close> is a series and not a cell:
  \<open>float\<close> raises on it, and so does the \<open>and\<close> of \<open>pd.notna\<close>; \<open>str\<close> of it is the
  printed series, which is not modelled (the model raises there too; a frame returned by
  \<open>df_from_excel_bytes\<close> has the label \<open>ticker\<close> once).
\<close>

definition row_get :: "string list \<Rightarrow> cell list \<Rightarrow> string \<Rightarrow> error + cell" where
  "row_get cols r c =
     (if count_list cols c > 1 then Inl PandasError
      else case cell_at cols r c of None \<Rightarrow> Inl (KeyError c) | Some v \<Rightarrow> Inr v)"

definition row_price :: "pylib \<Rightarrow> string list \<Rightarrow> cell list \<Rightarrow> string \<Rightarrow> error + pyfloat option" where
  "row_price lib cols r c =
     (if c \<in> set cols
      then (case row_get cols r c of
              Inl e \<Rightarrow> Inl e
            | Inr v \<Rightarrow>
                if notna v
                then (case py_float lib v of Inl e \<Rightarrow> Inl e | Inr x \<Rightarrow> Inr (Some x))
                else Inr None)
      else Inr None)"

definition row_position :: "pylib \<Rightarrow> string list \<Rightarrow> cell list \<Rightarrow> error + position" where
  "row_position lib cols r =
     (case row_get cols r ''ticker'' of
        Inl e \<Rightarrow> Inl e
      | Inr tv \<Rightarrow>
          (case row_get cols r ''qty'' of
             Inl e \<Rightarrow> Inl e
           | Inr qv \<Rightarrow>
               (case py_float lib qv of
                  Inl e \<Rightarrow> Inl e
                | Inr q \<Rightarrow>
                    (case row_price lib cols r ''exec_price'' of
                       Inl e \<Rightarrow> Inl e
                     | Inr ep \<Rightarrow>
                         (case row_price lib cols r ''current_price'' of
                            Inl e \<Rightarrow> Inl e
                          | Inr cp \<Rightarrow>
                              Inr \<lparr>ticker = upper (astype_str lib tv), qty = q,
                                   exec_price = ep, current_price = cp\<rparr>)))))"

text \<open>The loop over \<open>df.iterrows()\<close>: the list \<open>rows\<close> of positions, or the first exception.\<close>

fun build_rows :: "pylib \<Rightarrow> string list \<Rightarrow> cell list list \<Rightarrow> error + position list" where
  "build_rows lib cols [] = Inr []"
| "build_rows lib cols (r # rs) =
     (case row_position lib cols r of
        Inl e \<Rightarrow> Inl e
      | Inr p \<Rightarrow> (case build_rows lib cols rs of Inl e \<Rightarrow> Inl e | Inr ps \<Rightarrow> Inr (p # ps)))"

text \<open>
  \<open>load_df_into_db\<close>: the table is cleared and committed first, so an exception of the
  loop leaves the empty table behind. \<open>db.add_all(rows)\<close> adds the positions in order.
\<close>

definition load_df_into_db :: "pylib \<Rightarrow> session \<Rightarrow> dataframe \<Rightarrow> session \<times> (error + unit)" where
  "load_df_into_db lib db df =
     (let db0 = fold db_delete (list_positions db) db in
      case build_rows lib (columns df) (rows df) of
        Inl e \<Rightarrow> (db0, Inl e)
      | Inr ps \<Rightarrow> (fold db_add ps db0, Inr ()))"

subsection \<open>The reader of the upload (api/main.py)\<close>

definition COL_RENAME :: "(string \<times> string) list" where
  "COL_RENAME =
     [(''Ticker (RIC)'', ''ticker''),
      (''Company Name'', ''company''),
      (''qunatity'', ''qty''),
      (''quantity'', ''qty''),
      (''Sector'', ''sector''),
      (''Execution Price'', ''exec_price''),
      (''Current Price'', ''current_price''),
      (''Daily Change (%)'', ''daily_change_pct''),
      (''Change Since Traded (%)'', ''since_traded_pct'')]"

definition NUMERIC_COLS :: "string list" where
  "NUMERIC_COLS = [''qty'', ''exec_price'', ''current_price'', ''daily_change_pct'', ''since_traded_pct'']"

definition required_cols :: "string list" where
  "required_cols = [''ticker'', ''qty'', ''exec_price'', ''current_price'']"

text \<open>
  The renaming of \<open>_load_excel_to_df\<close>. \<open>lower_map\<close> sends the lower-cased label to the
  label (the last one, when two labels agree up to case); \<open>rename_map\<close> sends the label
  found for a key of \<open>COL_RENAME\<close> to its new name (a later entry of a Python
  dictionary overwrites an earlier one, hence the \<open>rev\<close>).
\<close>

definition rename_upload :: "string list \<Rightarrow> string list" where
  "rename_upload cols =
     (let lower_map = map_of (rev (map (\<lambda>c. (lower c, c)) cols));
          rename_map = map_of (rev (concat (map (\<lambda>(k, v). case lower_map (lower k) of
                                                           Some c \<Rightarrow> [(c, v)]
                                                         | None \<Rightarrow> []) COL_RENAME)))
      in rename_columns rename_map cols)"

text \<open>The number under a label of a row whose column has been made numeric.\<close>

definition num_at :: "string list \<Rightarrow> cell list \<Rightarrow> string \<Rightarrow> pyfloat" where
  "num_at cols r c = (case cell_at cols r c of Some (Flt x) \<Rightarrow> x | _ \<Rightarrow> NaN)"

text \<open>The light clean-up of \<open>_load_excel_to_df\<close>, on one row.\<close>

definition clean_row :: "pylib \<Rightarrow> string list \<Rightarrow> cell list \<Rightarrow> cell list" where
  "clean_row lib cols r =
     fold (\<lambda>c r'. upd_col c (\<lambda>v. Flt (to_numeric lib v)) cols r')
          (filter (\<lambda>c. c \<in> set cols) NUMERIC_COLS)
          (upd_col ''ticker'' (\<lambda>v. Str (upper (strip (astype_str lib v)))) cols r)"

text \<open>\<open>dropna(subset=["ticker", "qty"])\<close> keeps a row when neither cell is missing.\<close>

definition dropna_keep :: "string list \<Rightarrow> cell list \<Rightarrow> bool" where
  "dropna_keep cols r =
     (\<forall>c \<in> set [''ticker'', ''qty'']. case cell_at cols r c of Some v \<Rightarrow> notna v | None \<Rightarrow> True)"

text \<open>
  \<open>_load_excel_to_df\<close>, from the frame that \<open>pd.read_excel\<close> returns. As in the other
  reader, a label among \<open>ticker\<close> and the numeric columns that occurs twice makes
  \<open>.str\<close> or \<open>pd.to_numeric\<close> raise.
\<close>

definition load_excel_to_df :: "pylib \<Rightarrow> dataframe \<Rightarrow> error + dataframe" where
  "load_excel_to_df lib df =
     (let cols = rename_upload (columns df);
          missing = filter (\<lambda>c. c \<notin> set cols) required_cols
      in if missing \<noteq> [] then Inl (SchemaError missing cols)
         else if count_list cols ''ticker'' \<noteq> 1
                 \<or> (\<exists>c \<in> set NUMERIC_COLS. count_list cols c > 1) then Inl PandasError
         else
           let df1 = \<lparr>columns = cols,
                      rows = filter (dropna_keep cols) (map (clean_row lib cols) (rows df))\<rparr>;
               df2 = assign_col ''market_value''
                       (\<lambda>r. Flt (float_mul lib (num_at cols r ''qty'') (num_at cols r ''current_price'')))
                       df1;
               df3 = assign_col ''pnl_pct''
                       (\<lambda>r. Flt (float_mul lib
                                   (float_div lib
                                      (float_sub lib (num_at (columns df2) r ''current_price'')
                                                     (num_at (columns df2) r ''exec_price''))
                                      (num_at (columns df2) r ''exec_price''))
                                   (F 100)))
                       df2
           in Inr df3)"

text \<open>
  \<open>POST /portfolio/upload\<close>. The state is the global \<open>PORTFOLIO_DF\<close>; the argument
  \<open>rd\<close> is what saving the upload and \<open>pd.read_excel\<close> give, a frame or the exception
  raised. \<open>HTTPException s e\<close> is the response of status \<open>s\<close> whose detail is the text
  \<open>Upload/parse error:\<close> followed by the message of \<open>e\<close>.
\<close>

datatype http_error = HTTPException nat error

definition upload_portfolio ::
  "pylib \<Rightarrow> dataframe option \<Rightarrow> error + dataframe \<Rightarrow> dataframe option \<times> (http_error + nat)" where
  "upload_portfolio lib st rd =
     (case rd of
        Inl e \<Rightarrow> (st, Inl (HTTPException 400 e))
      | Inr df \<Rightarrow>
          (case load_excel_to_df lib df of
             Inl e \<Rightarrow> (st, Inl (HTTPException 400 e))
           | Inr d \<Rightarrow> (Some d, Inr (length (rows d)))))"

definition get_portfolio :: "dataframe option \<Rightarrow> cell list list" where
  "get_portfolio st = (case st of None \<Rightarrow> [] | Some d \<Rightarrow> rows d)"

section \<open>Web search (agent/tools/tools.py)\<close>







section \<open>Properties\<close>

lemma upper_char_idem: "upper_char (upper_char c) = upper_char c"
  by (simp add: upper_char_def)

lemma upper_idem: "upper (upper s) = upper s"
  by (simp add: upper_def upper_char_idem)

subsection \<open>The store and the mutations\<close>

lemma py_or_zero: "py_or a (F 0) = a"
  by (simp add: py_or_def)

lemma find_filter_ticker:
  "find (\<lambda>r. ticker r = k) (filter (\<lambda>r. ticker r \<noteq> t) db) =
     (if k = t then None else find (\<lambda>r. ticker r = k) db)"
  by (induction db) auto

lemma find_update_ticker:
  "find (\<lambda>r. ticker r = k) (map (\<lambda>r. if ticker r = ticker p then p else r) db) =
     (if k = ticker p then (case find (\<lambda>r. ticker r = k) db of None \<Rightarrow> None | Some _ \<Rightarrow> Some p)
      else find (\<lambda>r. ticker r = k) db)"
  by (induction db) auto


lemma get_position_ticker: "get_position db tk = Some p \<Longrightarrow> ticker p = upper tk"
  by (auto simp: get_position_def find_Some_iff)

lemma get_position_upper: "get_position db (upper tk) = get_position db tk"
  by (simp add: get_position_def upper_idem)


lemma get_position_delete:
  "get_position (db_delete p db) tk = (if ticker p = upper tk then None else get_position db tk)"
  by (auto simp: get_position_def db_delete_def find_filter_ticker)

lemma get_position_update:
  "get_position (db_update p db) tk =
     (if ticker p = upper tk then (case get_position db tk of None \<Rightarrow> None | Some _ \<Rightarrow> Some p)
      else get_position db tk)"
  by (auto simp: get_position_def db_update_def find_update_ticker)


lemma insert_position_present:
  assumes "get_position db tk = Some p"
  shows "insert_position db tk d ep cp =
           (if fle (fadd (qty p) d) (F 0) then (db_delete p db, None)
            else (db_update (p\<lparr>qty := fadd (qty p) d,
                     exec_price := (case ep of Some e \<Rightarrow> Some e | None \<Rightarrow> exec_price p),
                     current_price := (case cp of Some c \<Rightarrow> Some c | None \<Rightarrow> current_price p)\<rparr>) db,
                  Some (p\<lparr>qty := fadd (qty p) d,
                     exec_price := (case ep of Some e \<Rightarrow> Some e | None \<Rightarrow> exec_price p),
                     current_price := (case cp of Some c \<Rightarrow> Some c | None \<Rightarrow> current_price p)\<rparr>)))"
  using assms
  by (cases ep; cases cp)
     (simp_all add: insert_position_def get_position_upper Let_def py_or_zero db_delete_def)






lemma sell_stock_partial:
  assumes "get_position db tk = Some p" and "qty p = F q" and "0 < s" and "s < q"
  shows "\<exists>db'. sell_stock db tk (F s) = (db', Inr (Some (p\<lparr>qty := F (q - s)\<rparr>)))
           \<and> get_position db' tk = Some (p\<lparr>qty := F (q - s)\<rparr>)"
proof -
  have t: "ticker p = upper tk"
    using assms(1) by (rule get_position_ticker)
  show ?thesis
    using assms t
    by (simp add: sell_stock_def py_or_zero insert_position_present get_position_update)
qed

lemma sell_stock_close:
  assumes "get_position db tk = Some p" and "qty p = F q" and "0 < q"
  shows "\<exists>db'. sell_stock db tk (F q) = (db', Inr None) \<and> get_position db' tk = None"
proof -
  have t: "ticker p = upper tk"
    using assms(1) by (rule get_position_ticker)
  show ?thesis
    using assms t
    by (simp add: sell_stock_def py_or_zero insert_position_present get_position_delete)
qed

text \<open>
  Claim C3. For a position of quantity \<open>q\<close> and every \<open>s\<close> with \<open>0 < s \<le> q\<close>: selling
  \<open>s < q\<close> leaves the position with quantity \<open>q - s\<close> and returns the updated position;
  selling \<open>s = q\<close> deletes the position and returns nothing, and a following
  \<open>get_position\<close> finds nothing.
\<close>

theorem C3_sell:
  assumes "get_position db tk = Some p" and "qty p = F q" and "0 < s" and "s \<le> q"
  shows "(s < q \<longrightarrow>
            (\<exists>db'. sell_stock db tk (F s) = (db', Inr (Some (p\<lparr>qty := F (q - s)\<rparr>)))
               \<and> get_position db' tk = Some (p\<lparr>qty := F (q - s)\<rparr>)))
       \<and> (s = q \<longrightarrow>
            (\<exists>db'. sell_stock db tk (F s) = (db', Inr None) \<and> get_position db' tk = None))"
  using assms sell_stock_partial [of db tk p q s] sell_stock_close [of db tk p q]
  by auto

text \<open>
  Claim C4. \<open>buy_stock\<close> and \<open>sell_stock\<close> with a quantity \<open>\<le> 0\<close> fail with
  \<open>InvalidQuantity\<close>; \<open>sell_stock\<close> of a positive quantity that exceeds the held quantity,
  or of a ticker that is absent, fails with \<open>InsufficientShares\<close>; the session each
  failure leaves behind is the session it started from.
\<close>

theorem C4_errors:
  "(fle q (F 0) \<longrightarrow> buy_stock db tk q ep cp = (db, Inl InvalidQuantity))
 \<and> (fle q (F 0) \<longrightarrow> sell_stock db tk q = (db, Inl InvalidQuantity))
 \<and> (flt (F 0) q \<and> (get_position db tk = None \<or> (\<exists>p. get_position db tk = Some p \<and> flt (qty p) q))
      \<longrightarrow> sell_stock db tk q = (db, Inl InsufficientShares))"
  by (cases q) (auto simp: buy_stock_def sell_stock_def py_or_zero)

text \<open>
  Claim C10. A sale of \<open>s\<close> with \<open>0 < s < q\<close> from a position of quantity \<open>q\<close> succeeds and
  changes the quantity only: the ticker, the execution price and the current price of the
  position are the ones it had before, and the positions of the other tickers are the
  ones found before.
\<close>

theorem C10_sell_frame:
  assumes "get_position db tk = Some p" and "qty p = F q" and "0 < s" and "s < q"
  shows "\<exists>db' p'. sell_stock db tk (F s) = (db', Inr (Some p'))
           \<and> get_position db' tk = Some p'
           \<and> ticker p' = ticker p
           \<and> exec_price p' = exec_price p
           \<and> current_price p' = current_price p
           \<and> qty p' = F (q - s)
           \<and> (\<forall>t. upper t \<noteq> upper tk \<longrightarrow> get_position db' t = get_position db t)"
proof -
  have t: "ticker p = upper tk"
    using assms(1) by (rule get_position_ticker)
  show ?thesis
    using assms t
    by (simp add: sell_stock_def py_or_zero insert_position_present get_position_update)
qed

theorem C3_sell_witness:
  "get_position [\<lparr>ticker = ''AAPL'', qty = F 10, exec_price = Some (F 150), current_price = None\<rparr>] ''aapl''
     = Some \<lparr>ticker = ''AAPL'', qty = F 10, exec_price = Some (F 150), current_price = None\<rparr>
   \<and> (0::real) < 4 \<and> (4::real) < 10
   \<and> (\<exists>db'. sell_stock [\<lparr>ticker = ''AAPL'', qty = F 10, exec_price = Some (F 150), current_price = None\<rparr>]
                 ''aapl'' (F 4)
               = (db', Inr (Some \<lparr>ticker = ''AAPL'', qty = F 6, exec_price = Some (F 150), current_price = None\<rparr>))
          \<and> get_position db' ''aapl''
               = Some \<lparr>ticker = ''AAPL'', qty = F 6, exec_price = Some (F 150), current_price = None\<rparr>)
   \<and> (\<exists>db'. sell_stock [\<lparr>ticker = ''AAPL'', qty = F 10, exec_price = Some (F 150), current_price = None\<rparr>]
                 ''aapl'' (F 10) = (db', Inr None)
          \<and> get_position db' ''aapl'' = None)"
proof -
  let ?p = "\<lparr>ticker = ''AAPL'', qty = F 10, exec_price = Some (F 150), current_price = None\<rparr>"
  have g: "get_position [?p] ''aapl'' = Some ?p"
    by (simp add: get_position_def upper_def upper_char_def)
  have q: "qty ?p = F 10" by simp
  show ?thesis
    using g C3_sell [OF g q, of 4] C3_sell [OF g q, of 10]
    by simp
qed

theorem C4_errors_witness:
  "fle (F 0) (F 0)
   \<and> buy_stock [] ''aapl'' (F 0) None None = ([], Inl InvalidQuantity)
   \<and> sell_stock [] ''aapl'' (F 0) = ([], Inl InvalidQuantity)
   \<and> flt (F 0) (F 5) \<and> get_position [] ''aapl'' = None
   \<and> sell_stock [] ''aapl'' (F 5) = ([], Inl InsufficientShares)
   \<and> get_position [\<lparr>ticker = ''AAPL'', qty = F 2, exec_price = None, current_price = None\<rparr>] ''aapl''
       = Some \<lparr>ticker = ''AAPL'', qty = F 2, exec_price = None, current_price = None\<rparr>
   \<and> flt (F 2) (F 5)
   \<and> sell_stock [\<lparr>ticker = ''AAPL'', qty = F 2, exec_price = None, current_price = None\<rparr>] ''aapl'' (F 5)
       = ([\<lparr>ticker = ''AAPL'', qty = F 2, exec_price = None, current_price = None\<rparr>], Inl InsufficientShares)"
proof -
  let ?p = "\<lparr>ticker = ''AAPL'', qty = F 2, exec_price = None, current_price = None\<rparr>"
  have g: "get_position [?p] ''aapl'' = Some ?p"
    by (simp add: get_position_def upper_def upper_char_def)
  have n: "get_position [] ''aapl'' = None"
    by (simp add: get_position_def)
  show ?thesis
    using g n
      C4_errors [of "F 0" "[]" "''aapl''" None None]
      C4_errors [of "F 5" "[]" "''aapl''" None None]
      C4_errors [of "F 5" "[?p]" "''aapl''" None None]
    by simp
qed

theorem C10_sell_frame_witness:
  "get_position [\<lparr>ticker = ''AAPL'', qty = F 10, exec_price = Some (F 150), current_price = Some (F 160)\<rparr>,
                 \<lparr>ticker = ''MSFT'', qty = F 3, exec_price = None, current_price = None\<rparr>] ''AAPL''
     = Some \<lparr>ticker = ''AAPL'', qty = F 10, exec_price = Some (F 150), current_price = Some (F 160)\<rparr>
   \<and> (0::real) < 4 \<and> (4::real) < 10
   \<and> (\<exists>db' p'. sell_stock [\<lparr>ticker = ''AAPL'', qty = F 10, exec_price = Some (F 150), current_price = Some (F 160)\<rparr>,
                            \<lparr>ticker = ''MSFT'', qty = F 3, exec_price = None, current_price = None\<rparr>] ''AAPL'' (F 4)
                  = (db', Inr (Some p'))
          \<and> get_position db' ''AAPL'' = Some p'
          \<and> ticker p' = ''AAPL'' \<and> exec_price p' = Some (F 150) \<and> current_price p' = Some (F 160)
          \<and> qty p' = F 6
          \<and> get_position db' ''MSFT''
               = Some \<lparr>ticker = ''MSFT'', qty = F 3, exec_price = None, current_price = None\<rparr>)"
proof -
  let ?p = "\<lparr>ticker = ''AAPL'', qty = F 10, exec_price = Some (F 150), current_price = Some (F 160)\<rparr>"
  let ?m = "\<lparr>ticker = ''MSFT'', qty = F 3, exec_price = None, current_price = None\<rparr>"
  have g: "get_position [?p, ?m] ''AAPL'' = Some ?p"
    by (simp add: get_position_def upper_def upper_char_def)
  have m: "get_position [?p, ?m] ''MSFT'' = Some ?m"
    by (simp add: get_position_def upper_def upper_char_def)
  have u: "upper ''MSFT'' \<noteq> upper ''AAPL''"
    by (simp add: upper_def upper_char_def)
  have q: "qty ?p = F 10" by simp
  from C10_sell_frame [OF g q, of 4]
  obtain db' p' where h: "sell_stock [?p, ?m] ''AAPL'' (F 4) = (db', Inr (Some p'))"
      "get_position db' ''AAPL'' = Some p'" "ticker p' = ticker ?p"
      "exec_price p' = exec_price ?p" "current_price p' = current_price ?p" "qty p' = F (10 - 4)"
      "\<forall>t. upper t \<noteq> upper ''AAPL'' \<longrightarrow> get_position db' t = get_position [?p, ?m] t"
    by auto
  from h(7) u m have "get_position db' ''MSFT'' = Some ?m"
    by simp
  with g h show ?thesis
    by simp
qed

subsection \<open>The invariant of the quantities\<close>

text \<open>
  \<open>buy_stock\<close> and \<open>sell_stock\<close> keep every stored quantity positive when they are given
  a number: the rows with a quantity \<open>\<le> 0\<close> come from the import alone.
\<close>

lemma insert_position_positive:
  assumes "\<forall>p \<in> set db. flt (F 0) (qty p)"
    and "insert_position db tk (F d) ep cp = (db', r)"
    and "get_position db tk = None \<longrightarrow> 0 < d"
  shows "\<forall>p \<in> set db'. flt (F 0) (qty p)"
proof (cases "get_position db (upper tk)")
  case None
  then show ?thesis
    using assms
    by (auto simp: insert_position_def Let_def db_add_def py_max_def get_position_def upper_idem)
next
  case (Some p0)
  then have "p0 \<in> set db"
    by (auto simp: get_position_def find_Some_iff)
  then obtain a where "qty p0 = F a"
    using assms(1) by (cases "qty p0") auto
  then show ?thesis
    using Some assms(1,2)
    by (cases ep; cases cp)
       (auto simp: insert_position_def Let_def py_or_zero db_delete_def db_update_def
             split: if_splits)
qed

lemma buy_stock_positive:
  assumes "\<forall>p \<in> set db. flt (F 0) (qty p)" and "buy_stock db tk (F q) ep cp = (db', r)"
  shows "\<forall>p \<in> set db'. flt (F 0) (qty p)"
proof (cases "q \<le> 0")
  case True
  then show ?thesis
    using assms by (simp add: buy_stock_def)
next
  case False
  obtain d x where i: "insert_position db tk (F q) ep cp = (d, x)"
    by (cases "insert_position db tk (F q) ep cp")
  then have "db' = d"
    using False assms(2) by (auto simp: buy_stock_def split: option.splits)
  then show ?thesis
    using insert_position_positive [OF assms(1) i] False by simp
qed

lemma sell_stock_positive:
  assumes "\<forall>p \<in> set db. flt (F 0) (qty p)" and "sell_stock db tk (F q) = (db', r)"
  shows "\<forall>p \<in> set db'. flt (F 0) (qty p)"
proof (cases "get_position db tk")
  case None
  then show ?thesis
    using assms by (auto simp: sell_stock_def split: if_splits)
next
  case (Some p0)
  obtain d x where i: "insert_position db tk (F (- q)) None None = (d, x)"
    by (cases "insert_position db tk (F (- q)) None None")
  have "db' = db \<or> db' = d"
    using Some assms(2) i by (auto simp: sell_stock_def split: if_splits)
  then show ?thesis
    using insert_position_positive [OF assms(1) i] Some assms(1) by auto
qed

subsection \<open>The import into the ledger\<close>

lemma clear_all: "fold db_delete (list_positions db) db = []"
proof -
  have "fold db_delete ps db = filter (\<lambda>r. ticker r \<notin> ticker ` set ps) db" for ps
    by (induction ps arbitrary: db) (auto simp: db_delete_def intro: filter_cong)
  then show ?thesis
    by (simp add: list_positions_def)
qed

lemma tickers_db_add: "ticker ` set (db_add p db) = insert (ticker p) (ticker ` set db)"
  by (auto simp: db_add_def)

lemma tickers_fold_db_add: "ticker ` set (fold db_add ps db) = ticker ` set db \<union> ticker ` set ps"
  by (induction ps arbitrary: db) (auto simp: tickers_db_add)

lemma row_position_ticker:
  "row_position lib cols r = Inr p \<Longrightarrow>
     \<exists>v. cell_at cols r ''ticker'' = Some v \<and> ticker p = upper (astype_str lib v)"
  by (auto simp: row_position_def row_get_def split: sum.splits if_splits option.splits)

lemma build_rows_tickers:
  "build_rows lib cols rs = Inr ps \<Longrightarrow>
     map ticker ps =
       map (\<lambda>r. case cell_at cols r ''ticker'' of Some v \<Rightarrow> upper (astype_str lib v) | None \<Rightarrow> []) rs"
proof (induction rs arbitrary: ps)
  case Nil
  then show ?case by simp
next
  case (Cons r rs)
  then show ?case
    by (auto split: sum.splits dest: row_position_ticker)
qed

lemma build_rows_ok:
  "(\<exists>ps. build_rows lib cols rs = Inr ps) \<longleftrightarrow> (\<forall>r \<in> set rs. \<exists>p. row_position lib cols r = Inr p)"
  by (induction rs) (auto split: sum.splits)

lemmas eval_defs =
  df_from_excel_bytes_def rename_minimal_def RENAME_def rename_columns_def lower_def lower_char_def
  upper_def upper_char_def upd_col_def to_numeric_def astype_str_def fillna_def
  load_df_into_db_def row_position_def row_get_def row_price_def cell_at_def py_float_def notna_def
  db_add_def

text \<open>
  Claim C1 (every stored row has a quantity \<open>> 0\<close> after a purchase, a sale or an import;
  a row that would have a quantity \<open>\<le> 0\<close> is deleted). The import does not keep it: the
  sheet below has the text \<open>n/a\<close> and the number \<open>-10\<close> as quantities;
  \<open>df_from_excel_bytes\<close> turns them into \<open>0.0\<close> and \<open>-10.0\<close>, and \<open>load_df_into_db\<close>
  stores both rows.
\<close>

theorem C1_import_stores_nonpositive:
  "df_from_excel_bytes
     \<lparr>str_of_float = (\<lambda>x. ''nan''), to_numeric_str = (\<lambda>s. NaN), float_of_str = (\<lambda>s. None),
      float_mul = (\<lambda>a b. NaN), float_sub = (\<lambda>a b. NaN), float_div = (\<lambda>a b. NaN)\<rparr>
     \<lparr>columns = [''Ticker (RIC)'', ''quantity''],
      rows = [[Str ''AAPL'', Str ''n/a''], [Str ''MSFT'', Flt (F (- 10))]]\<rparr>
   = Inr \<lparr>columns = [''ticker'', ''qty''],
          rows = [[Str ''AAPL'', Flt (F 0)], [Str ''MSFT'', Flt (F (- 10))]]\<rparr>
   \<and> load_df_into_db
     \<lparr>str_of_float = (\<lambda>x. ''nan''), to_numeric_str = (\<lambda>s. NaN), float_of_str = (\<lambda>s. None),
      float_mul = (\<lambda>a b. NaN), float_sub = (\<lambda>a b. NaN), float_div = (\<lambda>a b. NaN)\<rparr>
     []
     \<lparr>columns = [''ticker'', ''qty''],
      rows = [[Str ''AAPL'', Flt (F 0)], [Str ''MSFT'', Flt (F (- 10))]]\<rparr>
   = ([\<lparr>ticker = ''AAPL'', qty = F 0, exec_price = None, current_price = None\<rparr>,
       \<lparr>ticker = ''MSFT'', qty = F (- 10), exec_price = None, current_price = None\<rparr>], Inr ())
   \<and> \<not> flt (F 0) (F 0) \<and> \<not> flt (F 0) (F (- 10))"
  by (simp add: eval_defs clear_all)

theorem C1_import_stores_nonpositive_witness:
  "map qty (fst (load_df_into_db
     \<lparr>str_of_float = (\<lambda>x. ''nan''), to_numeric_str = (\<lambda>s. NaN), float_of_str = (\<lambda>s. None),
      float_mul = (\<lambda>a b. NaN), float_sub = (\<lambda>a b. NaN), float_div = (\<lambda>a b. NaN)\<rparr>
     []
     \<lparr>columns = [''ticker'', ''qty''],
      rows = [[Str ''AAPL'', Flt (F 0)], [Str ''MSFT'', Flt (F (- 10))]]\<rparr>))
   = [F 0, F (- 10)]"
  using C1_import_stores_nonpositive by simp

text \<open>
  Claim C9 (a purchase of a quantity \<open>> 0\<close> through the tool returns a position, and the
  assertion of \<open>buy_stock\<close> cannot fail in a state the public operations produce). After
  the import of a row with the quantity \<open>-10\<close>, the purchase of \<open>5\<close> shares of that
  ticker leaves the quantity \<open>-5\<close>: \<open>insert_position\<close> deletes the row and returns
  nothing, and the assertion fails.
\<close>

theorem C9_assertion_fails:
  "load_df_into_db
     \<lparr>str_of_float = (\<lambda>x. ''nan''), to_numeric_str = (\<lambda>s. NaN), float_of_str = (\<lambda>s. None),
      float_mul = (\<lambda>a b. NaN), float_sub = (\<lambda>a b. NaN), float_div = (\<lambda>a b. NaN)\<rparr>
     []
     \<lparr>columns = [''ticker'', ''qty''], rows = [[Str ''AAPL'', Flt (F (- 10))]]\<rparr>
   = ([\<lparr>ticker = ''AAPL'', qty = F (- 10), exec_price = None, current_price = None\<rparr>], Inr ())
   \<and> flt (F 0) (F 5)
   \<and> buy_stock_tool [\<lparr>ticker = ''AAPL'', qty = F (- 10), exec_price = None, current_price = None\<rparr>]
        ''AAPL'' (F 5) None None
      = ([], Inl AssertionError)"
  by (simp add: eval_defs clear_all buy_stock_tool_def buy_stock_def insert_position_def
        get_position_def py_or_def db_delete_def Let_def)

theorem C9_assertion_fails_witness:
  "snd (buy_stock_tool [\<lparr>ticker = ''AAPL'', qty = F (- 10), exec_price = None, current_price = None\<rparr>]
          ''AAPL'' (F 5) None None)
   = Inl AssertionError"
  using C9_assertion_fails by simp

text \<open>
  Claim C6. An import replaces the ledger: after the import of \<open>A\<close> and then of \<open>B\<close>, the
  tickers of the ledger are exactly the (upper-cased) tickers of the rows of \<open>B\<close>, whatever
  \<open>A\<close> and the ledger before held. The import of \<open>B\<close> completes exactly when each of
  its rows gives a position, and an import that raises leaves the table empty.
\<close>

theorem C6_import_replaces:
  assumes "load_df_into_db lib db A = (db1, ra)"
    and "load_df_into_db lib db1 B = (db2, rb)"
  shows "(rb = Inr () \<longrightarrow>
            ticker ` set db2 =
              (\<lambda>r. case cell_at (columns B) r ''ticker'' of
                      Some v \<Rightarrow> upper (astype_str lib v)
                    | None \<Rightarrow> []) ` set (rows B))
       \<and> (rb = Inr () \<longleftrightarrow> (\<forall>r \<in> set (rows B). \<exists>p. row_position lib (columns B) r = Inr p))
       \<and> (rb \<noteq> Inr () \<longrightarrow> db2 = [])"
proof (cases "build_rows lib (columns B) (rows B)")
  case (Inl e)
  then have "\<not> (\<forall>r \<in> set (rows B). \<exists>p. row_position lib (columns B) r = Inr p)"
    using build_rows_ok [of lib "columns B" "rows B"] by simp
  then show ?thesis
    using Inl assms(2) by (auto simp: load_df_into_db_def clear_all)
next
  case (Inr ps)
  then have ok: "\<forall>r \<in> set (rows B). \<exists>p. row_position lib (columns B) r = Inr p"
    using build_rows_ok [of lib "columns B" "rows B"] by blast
  have r: "db2 = fold db_add ps []" "rb = Inr ()"
    using Inr assms(2) by (auto simp: load_df_into_db_def clear_all)
  have "ticker ` set ps =
      (\<lambda>r. case cell_at (columns B) r ''ticker'' of
              Some v \<Rightarrow> upper (astype_str lib v) | None \<Rightarrow> []) ` set (rows B)"
    using build_rows_tickers [OF Inr] by (metis image_set)
  with r ok show ?thesis
    by (simp add: tickers_fold_db_add)
qed

theorem C6_import_replaces_witness:
  "load_df_into_db
     \<lparr>str_of_float = (\<lambda>x. ''nan''), to_numeric_str = (\<lambda>s. NaN), float_of_str = (\<lambda>s. None),
      float_mul = (\<lambda>a b. NaN), float_sub = (\<lambda>a b. NaN), float_div = (\<lambda>a b. NaN)\<rparr>
     []
     \<lparr>columns = [''ticker'', ''qty''], rows = [[Str ''AAPL'', Flt (F 10)]]\<rparr>
   = ([\<lparr>ticker = ''AAPL'', qty = F 10, exec_price = None, current_price = None\<rparr>], Inr ())
   \<and> load_df_into_db
     \<lparr>str_of_float = (\<lambda>x. ''nan''), to_numeric_str = (\<lambda>s. NaN), float_of_str = (\<lambda>s. None),
      float_mul = (\<lambda>a b. NaN), float_sub = (\<lambda>a b. NaN), float_div = (\<lambda>a b. NaN)\<rparr>
     [\<lparr>ticker = ''AAPL'', qty = F 10, exec_price = None, current_price = None\<rparr>]
     \<lparr>columns = [''ticker'', ''qty'', ''exec_price''],
      rows = [[Str ''MSFT'', Flt (F 3), Flt (F 300)], [Str ''goog'', Flt (F 1), Flt NaN]]\<rparr>
   = ([\<lparr>ticker = ''MSFT'', qty = F 3, exec_price = Some (F 300), current_price = None\<rparr>,
       \<lparr>ticker = ''GOOG'', qty = F 1, exec_price = None, current_price = None\<rparr>], Inr ())
   \<and> ticker ` set [\<lparr>ticker = ''MSFT'', qty = F 3, exec_price = Some (F 300), current_price = None\<rparr>,
                    \<lparr>ticker = ''GOOG'', qty = F 1, exec_price = None, current_price = None\<rparr>]
       = {''MSFT'', ''GOOG''}"
proof -
  let ?lib = "\<lparr>str_of_float = (\<lambda>x. ''nan''), to_numeric_str = (\<lambda>s. NaN), float_of_str = (\<lambda>s. None),
      float_mul = (\<lambda>a b. NaN), float_sub = (\<lambda>a b. NaN), float_div = (\<lambda>a b. NaN)\<rparr>"
  let ?A = "\<lparr>columns = [''ticker'', ''qty''], rows = [[Str ''AAPL'', Flt (F 10)]]\<rparr>"
  let ?B = "\<lparr>columns = [''ticker'', ''qty'', ''exec_price''],
      rows = [[Str ''MSFT'', Flt (F 3), Flt (F 300)], [Str ''goog'', Flt (F 1), Flt NaN]]\<rparr>"
  let ?db1 = "[\<lparr>ticker = ''AAPL'', qty = F 10, exec_price = None, current_price = None\<rparr>]"
  let ?db2 = "[\<lparr>ticker = ''MSFT'', qty = F 3, exec_price = Some (F 300), current_price = None\<rparr>,
       \<lparr>ticker = ''GOOG'', qty = F 1, exec_price = None, current_price = None\<rparr>]"
  have a: "load_df_into_db ?lib [] ?A = (?db1, Inr ())"
    by (simp add: eval_defs clear_all)
  have b: "load_df_into_db ?lib ?db1 ?B = (?db2, Inr ())"
    by (simp add: eval_defs clear_all)
  have "ticker ` set ?db2 =
          (\<lambda>r. case cell_at (columns ?B) r ''ticker'' of
                  Some v \<Rightarrow> upper (astype_str ?lib v) | None \<Rightarrow> []) ` set (rows ?B)"
    using C6_import_replaces [OF a b] by blast
  also have "\<dots> = {''MSFT'', ''GOOG''}"
    by (simp add: cell_at_def astype_str_def upper_def upper_char_def)
  finally show ?thesis
    using a b by simp
qed

subsection \<open>The spreadsheet readers\<close>

lemmas eval_upload =
  load_excel_to_df_def rename_upload_def COL_RENAME_def required_cols_def NUMERIC_COLS_def
  rename_columns_def lower_def lower_char_def upload_portfolio_def

text \<open>
  Claim C7. \<open>_load_excel_to_df\<close> fails with its schema error exactly when one of
  \<open>ticker\<close>, \<open>qty\<close>, \<open>exec_price\<close>, \<open>current_price\<close> is not a column after its renaming;
  \<open>df_from_excel_bytes\<close> fails with its schema error exactly when \<open>ticker\<close> or \<open>qty\<close> is
  not among the lower-cased columns after its renaming; and \<open>upload_portfolio\<close> turns
  every exception of reading or parsing into the response of status 400 that carries it,
  leaving the stored frame as it was.
\<close>

theorem C7_schema_errors:
  "((\<exists>m f. load_excel_to_df lib df = Inl (SchemaError m f))
      \<longleftrightarrow> \<not> set required_cols \<subseteq> set (rename_upload (columns df)))
 \<and> (df_from_excel_bytes lib df = Inl SchemaErrorMinimal
      \<longleftrightarrow> \<not> {''ticker'', ''qty''} \<subseteq> set (map lower (rename_minimal (columns df))))
 \<and> (\<forall>e. rd = Inl e \<or> (\<exists>d. rd = Inr d \<and> load_excel_to_df lib d = Inl e)
        \<longrightarrow> upload_portfolio lib st rd = (st, Inl (HTTPException 400 e)))
 \<and> (\<forall>st' h. upload_portfolio lib st rd = (st', Inl h)
        \<longrightarrow> st' = st \<and> (\<exists>e. h = HTTPException 400 e))"
proof -
  have a: "(\<exists>m f. load_excel_to_df lib df = Inl (SchemaError m f))
      \<longleftrightarrow> \<not> set required_cols \<subseteq> set (rename_upload (columns df))"
    by (auto simp: load_excel_to_df_def Let_def filter_empty_conv)
  have b: "df_from_excel_bytes lib df = Inl SchemaErrorMinimal
      \<longleftrightarrow> \<not> {''ticker'', ''qty''} \<subseteq> set (map lower (rename_minimal (columns df)))"
    by (auto simp: df_from_excel_bytes_def Let_def)
  have c: "\<forall>e. rd = Inl e \<or> (\<exists>d. rd = Inr d \<and> load_excel_to_df lib d = Inl e)
        \<longrightarrow> upload_portfolio lib st rd = (st, Inl (HTTPException 400 e))"
    by (auto simp: upload_portfolio_def)
  have d: "\<forall>st' h. upload_portfolio lib st rd = (st', Inl h)
        \<longrightarrow> st' = st \<and> (\<exists>e. h = HTTPException 400 e)"
    by (auto simp: upload_portfolio_def split: sum.splits)
  from a b c d show ?thesis by blast
qed

theorem C7_schema_errors_witness:
  "load_excel_to_df
     \<lparr>str_of_float = (\<lambda>x. ''nan''), to_numeric_str = (\<lambda>s. NaN), float_of_str = (\<lambda>s. None),
      float_mul = (\<lambda>a b. NaN), float_sub = (\<lambda>a b. NaN), float_div = (\<lambda>a b. NaN)\<rparr>
     \<lparr>columns = [''Ticker (RIC)'', ''Quantity''], rows = [[Str ''AAPL'', Flt (F 10)]]\<rparr>
   = Inl (SchemaError [''exec_price'', ''current_price''] [''ticker'', ''qty''])
   \<and> \<not> set required_cols \<subseteq> set (rename_upload [''Ticker (RIC)'', ''Quantity''])
   \<and> upload_portfolio
     \<lparr>str_of_float = (\<lambda>x. ''nan''), to_numeric_str = (\<lambda>s. NaN), float_of_str = (\<lambda>s. None),
      float_mul = (\<lambda>a b. NaN), float_sub = (\<lambda>a b. NaN), float_div = (\<lambda>a b. NaN)\<rparr>
     None
     (Inr \<lparr>columns = [''Ticker (RIC)'', ''Quantity''], rows = [[Str ''AAPL'', Flt (F 10)]]\<rparr>)
   = (None, Inl (HTTPException 400 (SchemaError [''exec_price'', ''current_price''] [''ticker'', ''qty''])))
   \<and> df_from_excel_bytes
     \<lparr>str_of_float = (\<lambda>x. ''nan''), to_numeric_str = (\<lambda>s. NaN), float_of_str = (\<lambda>s. None),
      float_mul = (\<lambda>a b. NaN), float_sub = (\<lambda>a b. NaN), float_div = (\<lambda>a b. NaN)\<rparr>
     \<lparr>columns = [''Ticker (RIC)'', ''Quantity''], rows = [[Str ''AAPL'', Flt (F 10)]]\<rparr>
   = Inl SchemaErrorMinimal"
proof -
  let ?lib = "\<lparr>str_of_float = (\<lambda>x. ''nan''), to_numeric_str = (\<lambda>s. NaN), float_of_str = (\<lambda>s. None),
      float_mul = (\<lambda>a b. NaN), float_sub = (\<lambda>a b. NaN), float_div = (\<lambda>a b. NaN)\<rparr>"
  let ?df = "\<lparr>columns = [''Ticker (RIC)'', ''Quantity''], rows = [[Str ''AAPL'', Flt (F 10)]]\<rparr>"
  have e: "load_excel_to_df ?lib ?df = Inl (SchemaError [''exec_price'', ''current_price''] [''ticker'', ''qty''])"
    by (simp add: eval_upload)
  have m: "\<not> {''ticker'', ''qty''} \<subseteq> set (map lower (rename_minimal (columns ?df)))"
    by (simp add: rename_minimal_def RENAME_def rename_columns_def lower_def lower_char_def)
  show ?thesis
    using e m C7_schema_errors [of ?lib ?df "Inr ?df" None]
    by auto
qed


























subsection \<open>Web search\<close>






end
